theory Spec2Isabelle
  imports Complex_Main "HOL-Library.Word"
begin

section \<open>JavaScript values handled by the frontend\<close>

text \<open>
  The program is the React component tree of \<^verbatim>\<open>frontend/src/App.js\<close>. A JavaScript
  string is a sequence of UTF-16 code units. Property names and URL paths are the ASCII
  literals of the source and are written as HOL strings.
\<close>

type_synonym js_string = "16 word list"

text \<open>
  Values that cross the HTTP boundary or sit in component state. An object is an
  association list in insertion order, its keys distinct; numbers coming out of JSON
  are rationals (JSON has no NaN and no infinities).
\<close>

datatype js =
    JUndefined
  | JNull
  | JBool bool
  | JNum rat
  | JStr js_string
  | JArr "js list"
  | JObj "(string \<times> js) list"

text \<open>
  What a rejected promise or a thrown exception carries. \<^verbatim>\<open>InvalidChild\<close> is React's
  error for a plain object placed among an element's children.
\<close>

datatype js_error = TypeError | RequestFailed js | InvalidChild

type_synonym response = "js_error + js"

text \<open>\<^verbatim>\<open>ToBoolean\<close>: the test behind \<^verbatim>\<open>!x\<close>, \<^verbatim>\<open>x && y\<close> and \<^verbatim>\<open>x ? a : b\<close>.\<close>

fun truthy :: "js \<Rightarrow> bool" where
  "truthy JUndefined = False"
| "truthy JNull = False"
| "truthy (JBool b) = b"
| "truthy (JNum n) = (n \<noteq> 0)"
| "truthy (JStr s) = (s \<noteq> [])"
| "truthy (JArr xs) = True"
| "truthy (JObj kvs) = True"

text \<open>
  Member access \<^verbatim>\<open>v.k\<close> for the data properties the program reads (\<^verbatim>\<open>session_id\<close>,
  \<^verbatim>\<open>confidence\<close>, \<^verbatim>\<open>processing_time\<close>, \<^verbatim>\<open>sources\<close>, \<^verbatim>\<open>guardrails_passed\<close>,
  \<^verbatim>\<open>input\<close>, \<^verbatim>\<open>output\<close>, \<^verbatim>\<open>question\<close>, \<^verbatim>\<open>solution\<close>): none of them is defined on
  a prototype, so only an object's own properties answer; reading a property of
  \<^verbatim>\<open>undefined\<close> or \<^verbatim>\<open>null\<close> throws a TypeError.
\<close>

fun get_prop :: "js \<Rightarrow> string \<Rightarrow> js_error + js" where
  "get_prop JUndefined k = Inl TypeError"
| "get_prop JNull k = Inl TypeError"
| "get_prop (JObj kvs) k = Inr (case map_of kvs k of None \<Rightarrow> JUndefined | Some v \<Rightarrow> v)"
| "get_prop v k = Inr JUndefined"

text \<open>
  The object spread \<^verbatim>\<open>{...obj, k: v}\<close>: the own properties of \<^verbatim>\<open>obj\<close> are copied in
  order; a key already present keeps its place and takes the new value, a new key goes
  last.
\<close>

fun spread_set :: "(string \<times> js) list \<Rightarrow> string \<Rightarrow> js \<Rightarrow> (string \<times> js) list" where
  "spread_set [] k v = [(k, v)]"
| "spread_set ((k', v') # kvs) k v =
     (if k' = k then (k, v) # kvs else (k', v') # spread_set kvs k v)"

text \<open>
  \<^verbatim>\<open>String.prototype.trim\<close> strips the code units of WhiteSpace and LineTerminator
  (ECMAScript) from both ends.
\<close>

definition js_whitespace :: "16 word \<Rightarrow> bool" where
  "js_whitespace c \<longleftrightarrow>
     c \<in> {0x0009, 0x000A, 0x000B, 0x000C, 0x000D, 0x0020, 0x00A0, 0x1680,
          0x2028, 0x2029, 0x202F, 0x205F, 0x3000, 0xFEFF}
     \<or> (0x2000 \<le> c \<and> c \<le> 0x200A)"

definition trim :: "js_string \<Rightarrow> js_string" where
  "trim s = rev (dropWhile js_whitespace (rev (dropWhile js_whitespace s)))"

section \<open>Effects\<close>

text \<open>
  What a handler does to the outside world, in order: the calls \<^verbatim>\<open>api.get(path)\<close> and
  \<^verbatim>\<open>api.post(path, body)\<close> on the axios instance, and \<^verbatim>\<open>console.error(label, error)\<close>
  (the label only). The outcome of an awaited call is an argument of the handler:
  \<^verbatim>\<open>Inr data\<close> for a response whose \<^verbatim>\<open>data\<close> field is \<^verbatim>\<open>data\<close>, \<^verbatim>\<open>Inl e\<close> for a
  rejection.
\<close>

datatype effect = Get string | Post string js | ConsoleError string

fun is_request :: "effect \<Rightarrow> bool" where
  "is_request (Get p) = True"
| "is_request (Post p b) = True"
| "is_request (ConsoleError l) = False"

definition requests :: "effect list \<Rightarrow> effect list" where
  "requests fx = filter is_request fx"

section \<open>The App component\<close>

text \<open>The eight \<^verbatim>\<open>useState\<close> slices of \<^verbatim>\<open>App\<close>, with their initial values.\<close>

record app_state =
  question :: js_string
  solution :: js
  isLoading :: bool
  systemStatus :: js
  analytics :: js
  knowledgeBaseStats :: js
  mcpTools :: js
  activeTab :: string

definition app_init :: app_state where
  "app_init = \<lparr> question = [], solution = JNull, isLoading = False,
     systemStatus = JNull, analytics = JNull, knowledgeBaseStats = JNull,
     mcpTools = JNull, activeTab = ''solve'' \<rparr>"

text \<open>\<^verbatim>\<open>disabled={isLoading || !question.trim()}\<close> on the solve button of \<^verbatim>\<open>QuestionInput\<close>.\<close>

definition solve_button_disabled :: "app_state \<Rightarrow> bool" where
  "solve_button_disabled s \<longleftrightarrow> isLoading s \<or> trim (question s) = []"

text \<open>\<^verbatim>\<open>{solution && <SolutionDisplay .../>}\<close> on the solve tab.\<close>

definition solution_displayed :: "app_state \<Rightarrow> bool" where
  "solution_displayed s \<longleftrightarrow> activeTab s = ''solve'' \<and> truthy (solution s)"

text \<open>The body handed to \<^verbatim>\<open>api.post('/solve', ...)\<close>.\<close>

definition solve_body :: "js_string \<Rightarrow> js" where
  "solve_body q = JObj [(''question'', JStr (trim q)), (''use_mcp'', JBool True)]"

text \<open>
  The state \<^verbatim>\<open>handleSolve\<close> leaves behind while its request is awaited:
  \<^verbatim>\<open>setIsLoading(true); setSolution(null)\<close>.
\<close>

definition handleSolve_pending :: "app_state \<Rightarrow> app_state" where
  "handleSolve_pending s = s\<lparr>isLoading := True, solution := JNull\<rparr>"

text \<open>
  \<^verbatim>\<open>handleSolve\<close>, with the outcome \<open>r\<close> of the awaited \<^verbatim>\<open>api.post\<close>: the early
  return on a blank question, the two updates, the request, then the
  \<^verbatim>\<open>try\<close>/\<^verbatim>\<open>catch\<close>/\<^verbatim>\<open>finally\<close>.
\<close>

definition handleSolve :: "response \<Rightarrow> app_state \<Rightarrow> app_state \<times> effect list" where
  "handleSolve r s =
     (if trim (question s) = [] then (s, [])
      else (let s1 = handleSolve_pending s;
                post = Post ''/solve'' (solve_body (question s))
            in case r of
                 Inr d \<Rightarrow> (s1\<lparr>solution := d, isLoading := False\<rparr>, [post])
               | Inl e \<Rightarrow> (s1\<lparr>isLoading := False\<rparr>,
                           [post, ConsoleError ''Error solving problem:''])))"

text \<open>
  \<^verbatim>\<open>loadSystemData\<close>: the four \<^verbatim>\<open>api.get\<close> calls are made while the array literal is
  built, before \<^verbatim>\<open>Promise.all\<close> sees any outcome; the four setters run only when
  \<^verbatim>\<open>Promise.all\<close> resolves.
\<close>

definition sys_requests :: "effect list" where
  "sys_requests = [Get ''/health'', Get ''/feedback/analytics'',
     Get ''/knowledge-base/stats'', Get ''/mcp/tools'']"

type_synonym sys_responses = "response \<times> response \<times> response \<times> response"

fun loadSystemData :: "sys_responses \<Rightarrow> app_state \<Rightarrow> app_state \<times> effect list" where
  "loadSystemData (Inr statusRes, Inr analyticsRes, Inr kbRes, Inr mcpRes) s =
     (s\<lparr>systemStatus := statusRes, analytics := analyticsRes,
        knowledgeBaseStats := kbRes, mcpTools := mcpRes\<rparr>, sys_requests)"
| "loadSystemData rs s =
     (s, sys_requests @ [ConsoleError ''Failed to load system data:''])"

text \<open>\<^verbatim>\<open>handleFeedback\<close>: resolves (\<^verbatim>\<open>Inr\<close>) or rethrows what it caught (\<^verbatim>\<open>Inl\<close>).\<close>

definition feedback_body :: "js \<Rightarrow> js \<Rightarrow> js \<Rightarrow> js" where
  "feedback_body sessionId rating comments =
     JObj [(''session_id'', sessionId), (''rating'', rating), (''comments'', comments)]"

definition handleFeedback ::
  "js \<Rightarrow> js \<Rightarrow> js \<Rightarrow> response \<Rightarrow> response \<Rightarrow> app_state
     \<Rightarrow> (js_error + unit) \<times> app_state \<times> effect list" where
  "handleFeedback sessionId rating comments postRes getRes s =
     (let post = Post ''/feedback'' (feedback_body sessionId rating comments);
          failed = ConsoleError ''Failed to submit feedback:''
      in case postRes of
           Inl e \<Rightarrow> (Inl e, s, [post, failed])
         | Inr ok \<Rightarrow>
             (case getRes of
                Inl e \<Rightarrow> (Inl e, s, [post, Get ''/feedback/analytics'', failed])
              | Inr d \<Rightarrow> (Inr (), s\<lparr>analytics := d\<rparr>, [post, Get ''/feedback/analytics''])))"

section \<open>The SolutionDisplay component\<close>

text \<open>Its three \<^verbatim>\<open>useState\<close> slices; \<^verbatim>\<open>comments\<close> is a plain object.\<close>

record sd_state =
  showFeedback :: bool
  rating :: rat
  comments :: "(string \<times> js) list"

definition sd_init :: sd_state where
  "sd_init = \<lparr> showFeedback = False, rating = 5,
     comments = [(''clarity'', JStr []), (''accuracy'', JStr []), (''completeness'', JStr [])] \<rparr>"

text \<open>The stars rendered by \<^verbatim>\<open>[1, 2, 3, 4, 5].map(...)\<close>; button \<open>i\<close> calls \<^verbatim>\<open>setRating(star)\<close>.\<close>

definition stars :: "rat list" where
  "stars = [1, 2, 3, 4, 5]"

text \<open>
  \<^verbatim>\<open>handleFeedbackSubmit\<close>, with the outcomes of the two calls \<^verbatim>\<open>handleFeedback\<close> awaits.
  The read of \<^verbatim>\<open>solution.session_id\<close> sits inside the \<^verbatim>\<open>try\<close>.
\<close>

definition handleFeedbackSubmit ::
  "js \<Rightarrow> response \<Rightarrow> response \<Rightarrow> app_state \<times> sd_state \<Rightarrow> (app_state \<times> sd_state) \<times> effect list" where
  "handleFeedbackSubmit sol postRes getRes st =
     (let (s, d) = st; caught = ConsoleError ''Feedback submission failed:''
      in case get_prop sol ''session_id'' of
           Inl e \<Rightarrow> ((s, d), [caught])
         | Inr sid \<Rightarrow>
             (case handleFeedback sid (JNum (rating d)) (JObj (comments d)) postRes getRes s of
                (Inl e, s', fx) \<Rightarrow> ((s', d), fx @ [caught])
              | (Inr u, s', fx) \<Rightarrow> ((s', d\<lparr>showFeedback := False\<rparr>), fx)))"

text \<open>
  What the user can do to a mounted \<^verbatim>\<open>SolutionDisplay\<close>. The form (stars, the three
  inputs, the submit button) is rendered only while \<^verbatim>\<open>showFeedback\<close> holds, so a form
  event finds no element otherwise. \<^verbatim>\<open>Remount\<close> is the component leaving the tree
  (the user visits the analytics tab) and coming back with its initial state.
\<close>

datatype sd_event =
    ToggleFeedback
  | ClickStar nat
  | ChangeClarity js_string
  | ChangeAccuracy js_string
  | ChangeCompleteness js_string
  | ClickSubmit response response
  | Remount

fun sd_step :: "js \<Rightarrow> sd_event \<Rightarrow> app_state \<times> sd_state \<Rightarrow> (app_state \<times> sd_state) \<times> effect list" where
  "sd_step sol ToggleFeedback (s, d) = ((s, d\<lparr>showFeedback := \<not> showFeedback d\<rparr>), [])"
| "sd_step sol Remount (s, d) = ((s, sd_init), [])"
| "sd_step sol ev (s, d) =
     (if \<not> showFeedback d then ((s, d), [])
      else case ev of
          ClickStar i \<Rightarrow>
            (if i < length stars then ((s, d\<lparr>rating := stars ! i\<rparr>), []) else ((s, d), []))
        | ChangeClarity v \<Rightarrow>
            ((s, d\<lparr>comments := spread_set (comments d) ''clarity'' (JStr v)\<rparr>), [])
        | ChangeAccuracy v \<Rightarrow>
            ((s, d\<lparr>comments := spread_set (comments d) ''accuracy'' (JStr v)\<rparr>), [])
        | ChangeCompleteness v \<Rightarrow>
            ((s, d\<lparr>comments := spread_set (comments d) ''completeness'' (JStr v)\<rparr>), [])
        | ClickSubmit postRes getRes \<Rightarrow> handleFeedbackSubmit sol postRes getRes (s, d)
        | _ \<Rightarrow> ((s, d), []))"

text \<open>A session with one displayed solution: the events in order, the effects collected.\<close>

fun sd_run :: "js \<Rightarrow> sd_event list \<Rightarrow> app_state \<times> sd_state \<Rightarrow> (app_state \<times> sd_state) \<times> effect list" where
  "sd_run sol [] st = (st, [])"
| "sd_run sol (ev # evs) st =
     (let (st1, fx1) = sd_step sol ev st; (st2, fx2) = sd_run sol evs st1
      in (st2, fx1 @ fx2))"

text \<open>
  The shape of the feedback form's state that every handler keeps: the rating is one of
  the five stars, and \<^verbatim>\<open>comments\<close> has the three keys of its initial value, in that
  order, each holding a string.
\<close>

definition is_text :: "js \<Rightarrow> bool" where
  "is_text v = (case v of JStr t \<Rightarrow> True | _ \<Rightarrow> False)"

definition comment_keys :: "string list" where
  "comment_keys = [''clarity'', ''accuracy'', ''completeness'']"

definition sd_inv :: "sd_state \<Rightarrow> bool" where
  "sd_inv d \<longleftrightarrow>
     rating d \<in> {1, 2, 3, 4, 5}
     \<and> map fst (comments d) = comment_keys
     \<and> list_all is_text (map snd (comments d))"

section \<open>What SolutionDisplay renders\<close>

text \<open>
  The Quality Checks panel (lines 147-159): each badge shows passed when the property it
  reads is truthy.
\<close>

datatype badge = Passed | Failed

definition badge_of :: "js \<Rightarrow> badge" where
  "badge_of v = (if truthy v then Passed else Failed)"

definition guardrails_panel :: "js \<Rightarrow> js_error + (badge \<times> badge)" where
  "guardrails_panel sol =
     (case get_prop sol ''guardrails_passed'' of
        Inl e \<Rightarrow> Inl e
      | Inr g \<Rightarrow>
          (case get_prop g ''input'' of
             Inl e \<Rightarrow> Inl e
           | Inr i \<Rightarrow>
               (case get_prop g ''output'' of
                  Inl e \<Rightarrow> Inl e
                | Inr out \<Rightarrow> Inr (badge_of i, badge_of out))))"

text \<open>
  The method calls of the render. \<^verbatim>\<open>toFixed\<close> exists on numbers only, \<^verbatim>\<open>map\<close> on
  arrays only, \<^verbatim>\<open>toLowerCase\<close> and \<^verbatim>\<open>split\<close> on strings only; on any other value the
  property is undefined (or the receiver is \<^verbatim>\<open>undefined\<close> or \<^verbatim>\<open>null\<close>) and the call
  throws a TypeError. So \<^verbatim>\<open>solution.sources.map(source => source.toLowerCase()...)\<close>
  goes through exactly for an array of strings.
\<close>

definition is_number :: "js \<Rightarrow> bool" where
  "is_number v = (case v of JNum n \<Rightarrow> True | _ \<Rightarrow> False)"

definition is_string_array :: "js \<Rightarrow> bool" where
  "is_string_array v = (case v of JArr xs \<Rightarrow> list_all is_text xs | _ \<Rightarrow> False)"

text \<open>
  What React accepts as a child in \<^verbatim>\<open>{solution.question}\<close>: strings and numbers are
  shown, booleans, \<^verbatim>\<open>null\<close> and \<^verbatim>\<open>undefined\<close> show nothing, an array is accepted when
  each of its items is, a plain object is refused.
\<close>

fun react_child_ok :: "js \<Rightarrow> bool" where
  "react_child_ok (JObj kvs) = False"
| "react_child_ok (JArr xs) = list_all react_child_ok xs"
| "react_child_ok v = True"

text \<open>
  The render of \<^verbatim>\<open>SolutionDisplay\<close> for the \<^verbatim>\<open>solution\<close> prop, in the order of the JSX
  (lines 105-247). Its result is the pair of guardrail badges of the rendered view, or
  the error that keeps the component from being displayed.
  The reads of \<^verbatim>\<open>solution.confidence\<close> (lines 117-118) cannot fail: a comparison and a
  product of JSON values give a number, and \<^verbatim>\<open>toFixed(0)\<close> is called on that number.
  Then come \<^verbatim>\<open>solution.processing_time.toFixed(1)\<close> (line 127),
  \<^verbatim>\<open>solution.sources.map(...)\<close> (line 136), the panel (lines 150-155),
  \<^verbatim>\<open>{solution.question}\<close> (line 165, checked by React once the function has returned
  its elements) and \<^verbatim>\<open>solution.solution.split('\n')\<close> (line 173).
\<close>

definition SolutionDisplay_render :: "js \<Rightarrow> js_error + (badge \<times> badge)" where
  "SolutionDisplay_render sol =
     (case get_prop sol ''processing_time'' of
        Inl e \<Rightarrow> Inl e
      | Inr t \<Rightarrow>
          if \<not> is_number t then Inl TypeError
          else (case get_prop sol ''sources'' of
             Inl e \<Rightarrow> Inl e
           | Inr srcs \<Rightarrow>
               if \<not> is_string_array srcs then Inl TypeError
               else (case guardrails_panel sol of
                  Inl e \<Rightarrow> Inl e
                | Inr badges \<Rightarrow>
                    (case get_prop sol ''solution'' of
                       Inl e \<Rightarrow> Inl e
                     | Inr txt \<Rightarrow>
                         if \<not> is_text txt then Inl TypeError
                         else (case get_prop sol ''question'' of
                            Inl e \<Rightarrow> Inl e
                          | Inr q \<Rightarrow>
                              if \<not> react_child_ok q then Inl InvalidChild
                              else Inr badges)))))"

section \<open>The polling effect\<close>

text \<open>
  \<^verbatim>\<open>useEffect(() => { loadSystemData(); const interval = setInterval(loadSystemData,
  30000); return () => clearInterval(interval); }, [])\<close>.
  The page keeps the browser's interval timers, each with its delay and the milliseconds
  left until it fires next; \<^verbatim>\<open>loadSystemData\<close> is the only callback the program ever
  registers. \<open>cleanup\<close> is the interval id held by the closure the effect returned.
  The outcomes of the four calls made at a given millisecond come from \<open>srv\<close>.
\<close>

record timer =
  timer_id :: nat
  timer_delay :: nat
  timer_due :: nat

record page =
  app :: app_state
  timers :: "timer list"
  next_timer_id :: nat
  cleanup :: "nat option"
  clock :: nat
  log :: "effect list"

definition page_init :: page where
  "page_init = \<lparr> app = app_init, timers = [], next_timer_id = 0, cleanup = None,
     clock = 0, log = [] \<rparr>"

definition poll_ms :: nat where
  "poll_ms = 30000"

definition setInterval :: "nat \<Rightarrow> page \<Rightarrow> nat \<times> page" where
  "setInterval d p =
     (next_timer_id p,
      p\<lparr>timers := timers p @ [\<lparr>timer_id = next_timer_id p, timer_delay = d, timer_due = d\<rparr>],
        next_timer_id := Suc (next_timer_id p)\<rparr>)"

definition clearInterval :: "nat \<Rightarrow> page \<Rightarrow> page" where
  "clearInterval i p = p\<lparr>timers := filter (\<lambda>t. timer_id t \<noteq> i) (timers p)\<rparr>"

definition call_loadSystemData :: "(nat \<Rightarrow> sys_responses) \<Rightarrow> page \<Rightarrow> page" where
  "call_loadSystemData srv p =
     (let (s, fx) = loadSystemData (srv (clock p)) (app p)
      in p\<lparr>app := s, log := log p @ fx\<rparr>)"

definition mount :: "(nat \<Rightarrow> sys_responses) \<Rightarrow> page \<Rightarrow> page" where
  "mount srv p =
     (let p1 = call_loadSystemData srv p;
          (interval, p2) = setInterval poll_ms p1
      in p2\<lparr>cleanup := Some interval\<rparr>)"

definition unmount :: "page \<Rightarrow> page" where
  "unmount p =
     (case cleanup p of
        None \<Rightarrow> p
      | Some interval \<Rightarrow> (clearInterval interval p)\<lparr>cleanup := None\<rparr>)"

text \<open>One millisecond passes: every timer that is due fires its callback and is re-armed.\<close>

definition due_now :: "timer \<Rightarrow> bool" where
  "due_now t \<longleftrightarrow> timer_due t \<le> 1"

definition rearm :: "timer \<Rightarrow> timer" where
  "rearm t = (if due_now t then t\<lparr>timer_due := timer_delay t\<rparr>
              else t\<lparr>timer_due := timer_due t - 1\<rparr>)"

definition tick :: "(nat \<Rightarrow> sys_responses) \<Rightarrow> page \<Rightarrow> page" where
  "tick srv p =
     (call_loadSystemData srv ^^ length (filter due_now (timers p)))
       (p\<lparr>clock := Suc (clock p), timers := map rearm (timers p)\<rparr>)"

primrec elapse :: "(nat \<Rightarrow> sys_responses) \<Rightarrow> nat \<Rightarrow> page \<Rightarrow> page" where
  "elapse srv 0 p = p"
| "elapse srv (Suc n) p = tick srv (elapse srv n p)"

section \<open>Blank questions\<close>

lemma dropWhile_all_iff: "(\<forall>x \<in> set (dropWhile P xs). P x) \<longleftrightarrow> (\<forall>x \<in> set xs. P x)"
  by (induction xs) auto

lemma trim_empty_iff: "trim q = [] \<longleftrightarrow> (\<forall>c \<in> set q. js_whitespace c)"
  by (simp add: trim_def dropWhile_all_iff)

text \<open>
  C1. For a question that is empty or made of whitespace only, \<^verbatim>\<open>handleSolve\<close> returns
  at once: it issues no request and writes no effect at all, it leaves every slice of the
  state as it was (so a solution that was absent stays absent and nothing is displayed),
  and the solve button is disabled.
\<close>

theorem blank_question_no_solve:
  assumes "\<forall>c \<in> set (question s). js_whitespace c"
  shows "handleSolve r s = (s, [])
       \<and> requests (snd (handleSolve r s)) = []
       \<and> solve_button_disabled s
       \<and> (solution s = JNull \<longrightarrow>
            solution (fst (handleSolve r s)) = JNull
            \<and> \<not> solution_displayed (fst (handleSolve r s)))"
proof -
  from assms have blank: "trim (question s) = []"
    by (simp add: trim_empty_iff)
  then have run: "handleSolve r s = (s, [])"
    by (simp add: handleSolve_def)
  then have quiet: "requests (snd (handleSolve r s)) = []"
    by (simp add: requests_def)
  from blank have off: "solve_button_disabled s"
    by (simp add: solve_button_disabled_def)
  from run have absent:
    "solution s = JNull \<longrightarrow>
       solution (fst (handleSolve r s)) = JNull
       \<and> \<not> solution_displayed (fst (handleSolve r s))"
    by (simp add: solution_displayed_def)
  from run quiet off absent show ?thesis
    by blast
qed

theorem blank_question_no_solve_witness:
  "handleSolve (Inr (JStr [0x34])) (app_init\<lparr>question := [0x20, 0x09, 0xA0]\<rparr>)
     = (app_init\<lparr>question := [0x20, 0x09, 0xA0]\<rparr>, [])
   \<and> solve_button_disabled (app_init\<lparr>question := [0x20, 0x09, 0xA0]\<rparr>)
   \<and> solution (fst (handleSolve (Inr (JStr [0x34])) (app_init\<lparr>question := [0x20, 0x09, 0xA0]\<rparr>)))
       = JNull"
proof -
  let ?s = "app_init\<lparr>question := [0x20, 0x09, 0xA0]\<rparr>"
  have blank: "\<forall>c \<in> set (question ?s). js_whitespace c"
    by (simp add: js_whitespace_def)
  have absent: "solution ?s = JNull"
    by (simp add: app_init_def)
  from blank_question_no_solve[OF blank, of "Inr (JStr [0x34])"] absent
  show ?thesis by simp
qed

section \<open>The solve request\<close>

lemma handleSolve_effects:
  "trim (question s) \<noteq> [] \<Longrightarrow>
     snd (handleSolve r s) =
       Post ''/solve'' (solve_body (question s)) #
         (case r of Inr d \<Rightarrow> [] | Inl e \<Rightarrow> [ConsoleError ''Error solving problem:''])"
  by (simp add: handleSolve_def Let_def split: sum.split)


text \<open>
  C2 as stated fails: for the question \<^verbatim>\<open>" x "\<close> the body of the one request is
  \<^verbatim>\<open>{question: "x", use_mcp: true}\<close>, and its property \<^verbatim>\<open>use_computation_service\<close> is
  undefined.
\<close>

theorem solve_flag_name_counterexample:
  "snd (handleSolve (Inr JNull) (app_init\<lparr>question := [0x20, 0x78, 0x20]\<rparr>))
     = [Post ''/solve'' (JObj [(''question'', JStr [0x78]), (''use_mcp'', JBool True)])]
   \<and> get_prop (JObj [(''question'', JStr [0x78]), (''use_mcp'', JBool True)])
        ''use_computation_service'' = Inr JUndefined
   \<and> get_prop (JObj [(''question'', JStr [0x78]), (''use_mcp'', JBool True)])
        ''use_computation_service'' \<noteq> Inr (JBool True)"
  by (simp add: handleSolve_def handleSolve_pending_def solve_body_def trim_def
      js_whitespace_def Let_def)

text \<open>
  C2, amended. For a question that is not blank, \<^verbatim>\<open>handleSolve\<close> issues exactly one
  request, a POST to \<^verbatim>\<open>/solve\<close>, whose body has exactly the two properties
  \<^verbatim>\<open>question\<close>, the trimmed question text, and \<^verbatim>\<open>use_mcp\<close>, the boolean true.
\<close>

theorem solve_request_body:
  assumes "trim (question s) \<noteq> []"
  shows "requests (snd (handleSolve r s)) =
           [Post ''/solve''
              (JObj [(''question'', JStr (trim (question s))), (''use_mcp'', JBool True)])]"
  using assms
  by (simp add: handleSolve_effects requests_def solve_body_def split: sum.split)

theorem solve_request_body_witness:
  "trim (question (app_init\<lparr>question := [0x20, 0x78, 0x20]\<rparr>)) \<noteq> []
   \<and> requests (snd (handleSolve (Inl (RequestFailed JNull)) (app_init\<lparr>question := [0x20, 0x78, 0x20]\<rparr>)))
       = [Post ''/solve'' (JObj [(''question'', JStr [0x78]), (''use_mcp'', JBool True)])]"
proof -
  let ?s = "app_init\<lparr>question := [0x20, 0x78, 0x20]\<rparr>"
  have t: "trim (question ?s) = [0x78]"
    by (simp add: trim_def js_whitespace_def)
  then have ne: "trim (question ?s) \<noteq> []"
    by simp
  from solve_request_body[OF ne, of "Inl (RequestFailed JNull)"] t ne
  show ?thesis by simp
qed



section \<open>The periodic refresh\<close>

text \<open>
  C8. \<^verbatim>\<open>loadSystemData\<close> writes the four slices together when all four requests
  succeed, each slice from its own response and nothing else changed; when any one of
  them fails, the state after the call is the state before it.
\<close>

theorem system_refresh_all_or_nothing:
  "fst (loadSystemData (Inr a, Inr b, Inr c, Inr d) s)
     = s\<lparr>systemStatus := a, analytics := b, knowledgeBaseStats := c, mcpTools := d\<rparr>
   \<and> (isl r1 \<or> isl r2 \<or> isl r3 \<or> isl r4 \<longrightarrow> fst (loadSystemData (r1, r2, r3, r4) s) = s)"
proof -
  have ok: "fst (loadSystemData (Inr a, Inr b, Inr c, Inr d) s)
      = s\<lparr>systemStatus := a, analytics := b, knowledgeBaseStats := c, mcpTools := d\<rparr>"
    by simp
  have ko: "isl r1 \<or> isl r2 \<or> isl r3 \<or> isl r4 \<longrightarrow> fst (loadSystemData (r1, r2, r3, r4) s) = s"
    by (cases r1; cases r2; cases r3; cases r4) simp_all
  from ok ko show ?thesis ..
qed

theorem system_refresh_all_or_nothing_witness:
  "fst (loadSystemData
          (Inr (JObj [(''status'', JStr [0x6F, 0x6B])]), Inr (JObj [(''total_feedback'', JNum 3)]),
           Inl (RequestFailed JNull), Inr (JObj [(''available'', JBool True)]))
          (app_init\<lparr>analytics := JObj [(''total_feedback'', JNum 2)]\<rparr>))
     = app_init\<lparr>analytics := JObj [(''total_feedback'', JNum 2)]\<rparr>
   \<and> analytics (fst (loadSystemData
          (Inr (JObj [(''status'', JStr [0x6F, 0x6B])]), Inr (JObj [(''total_feedback'', JNum 3)]),
           Inr JNull, Inr (JObj [(''available'', JBool True)]))
          (app_init\<lparr>analytics := JObj [(''total_feedback'', JNum 2)]\<rparr>)))
     = JObj [(''total_feedback'', JNum 3)]"
  using system_refresh_all_or_nothing
    [of "JObj [(''status'', JStr [0x6F, 0x6B])]" "JObj [(''total_feedback'', JNum 3)]" JNull
        "JObj [(''available'', JBool True)]"
        "app_init\<lparr>analytics := JObj [(''total_feedback'', JNum 2)]\<rparr>"
        "Inr (JObj [(''status'', JStr [0x6F, 0x6B])])" "Inr (JObj [(''total_feedback'', JNum 3)])"
        "Inl (RequestFailed JNull)" "Inr (JObj [(''available'', JBool True)])"]
  by simp

section \<open>Feedback\<close>

lemma handleFeedback_resolves_iff:
  "isl (fst (handleFeedback sid r c postRes getRes s)) \<longleftrightarrow> isl postRes \<or> isl getRes"
  by (simp add: handleFeedback_def Let_def split: sum.split)

lemma handleFeedback_resolved:
  "handleFeedback sid r c (Inr ok) (Inr snap) s =
     (Inr (), s\<lparr>analytics := snap\<rparr>,
      [Post ''/feedback'' (feedback_body sid r c), Get ''/feedback/analytics''])"
  by (simp add: handleFeedback_def Let_def)

text \<open>
  C7 as stated fails. The POST succeeds, so the record is inserted, and the GET of the
  analytics is rejected: \<^verbatim>\<open>handleFeedback\<close> rethrows, and the analytics slice still
  holds the snapshot from before the insertion.
\<close>

theorem feedback_stale_analytics_counterexample:
  "handleFeedback (JStr [0x61]) (JNum 4) (JObj []) (Inr JNull) (Inl (RequestFailed JNull))
      (app_init\<lparr>analytics := JObj [(''total_feedback'', JNum 7)]\<rparr>)
     = (Inl (RequestFailed JNull),
        app_init\<lparr>analytics := JObj [(''total_feedback'', JNum 7)]\<rparr>,
        [Post ''/feedback'' (feedback_body (JStr [0x61]) (JNum 4) (JObj [])),
         Get ''/feedback/analytics'', ConsoleError ''Failed to submit feedback:''])"
  by (simp add: handleFeedback_def Let_def)

text \<open>
  C7, amended. After every feedback submission whose POST succeeds, the frontend issues
  a GET of \<^verbatim>\<open>/feedback/analytics\<close> right after it. When that GET succeeds, the
  analytics slice becomes its data, whatever it held before, no other slice changes and
  \<^verbatim>\<open>handleFeedback\<close> resolves. When that GET fails, the state is left exactly as it
  was and the GET's error is rethrown. When the POST fails, no GET is issued, the state
  is left exactly as it was and the POST's error is rethrown.
\<close>

theorem feedback_analytics_reload:
  "(postRes = Inr ok \<longrightarrow>
      requests (snd (snd (handleFeedback sid r c postRes getRes s)))
        = [Post ''/feedback'' (feedback_body sid r c), Get ''/feedback/analytics''])
   \<and> (postRes = Inr ok \<and> getRes = Inr snap \<longrightarrow>
        fst (handleFeedback sid r c postRes getRes s) = Inr ()
        \<and> fst (snd (handleFeedback sid r c postRes getRes s)) = s\<lparr>analytics := snap\<rparr>)
   \<and> (postRes = Inr ok \<and> getRes = Inl e \<longrightarrow>
        fst (handleFeedback sid r c postRes getRes s) = Inl e
        \<and> fst (snd (handleFeedback sid r c postRes getRes s)) = s)
   \<and> (postRes = Inl e \<longrightarrow>
        fst (handleFeedback sid r c postRes getRes s) = Inl e
        \<and> fst (snd (handleFeedback sid r c postRes getRes s)) = s
        \<and> requests (snd (snd (handleFeedback sid r c postRes getRes s)))
            = [Post ''/feedback'' (feedback_body sid r c)])"
  by (cases postRes; cases getRes) (simp_all add: handleFeedback_def Let_def requests_def)

theorem feedback_analytics_reload_witness:
  "fst (snd (handleFeedback (JStr [0x61]) (JNum 4) (JObj []) (Inr JNull)
      (Inr (JObj [(''total_feedback'', JNum 8)]))
      (app_init\<lparr>analytics := JObj [(''total_feedback'', JNum 7)]\<rparr>)))
     = app_init\<lparr>analytics := JObj [(''total_feedback'', JNum 8)]\<rparr>
   \<and> requests (snd (snd (handleFeedback (JStr [0x61]) (JNum 4) (JObj []) (Inr JNull)
      (Inr (JObj [(''total_feedback'', JNum 8)]))
      (app_init\<lparr>analytics := JObj [(''total_feedback'', JNum 7)]\<rparr>))))
     = [Post ''/feedback'' (feedback_body (JStr [0x61]) (JNum 4) (JObj [])),
        Get ''/feedback/analytics'']
   \<and> fst (snd (handleFeedback (JStr [0x61]) (JNum 4) (JObj []) (Inr JNull)
      (Inl (RequestFailed JNull))
      (app_init\<lparr>analytics := JObj [(''total_feedback'', JNum 7)]\<rparr>)))
     = app_init\<lparr>analytics := JObj [(''total_feedback'', JNum 7)]\<rparr>
   \<and> fst (handleFeedback (JStr [0x61]) (JNum 4) (JObj []) (Inr JNull)
      (Inl (RequestFailed JNull))
      (app_init\<lparr>analytics := JObj [(''total_feedback'', JNum 7)]\<rparr>))
     = Inl (RequestFailed JNull)"
  using feedback_analytics_reload
    [of "Inr JNull" JNull "JStr [0x61]" "JNum 4" "JObj []"
        "Inr (JObj [(''total_feedback'', JNum 8)])"
        "app_init\<lparr>analytics := JObj [(''total_feedback'', JNum 7)]\<rparr>"
        "JObj [(''total_feedback'', JNum 8)]" "RequestFailed JNull"]
    feedback_analytics_reload
    [of "Inr JNull" JNull "JStr [0x61]" "JNum 4" "JObj []"
        "Inl (RequestFailed JNull)"
        "app_init\<lparr>analytics := JObj [(''total_feedback'', JNum 7)]\<rparr>"
        "JObj [(''total_feedback'', JNum 8)]" "RequestFailed JNull"]
  by simp

lemma truthy_get_prop: "truthy sol \<Longrightarrow> \<exists>v. get_prop sol k = Inr v"
  by (cases sol) simp_all

lemma handleFeedbackSubmit_form:
  "get_prop sol ''session_id'' = Inr sid \<Longrightarrow>
     snd (fst (handleFeedbackSubmit sol postRes getRes (s, d))) =
       (if isl (fst (handleFeedback sid (JNum (rating d)) (JObj (comments d)) postRes getRes s))
        then d else d\<lparr>showFeedback := False\<rparr>)"
  by (simp add: handleFeedbackSubmit_def split: prod.split sum.split)

text \<open>
  C10. For a displayed solution, \<^verbatim>\<open>handleFeedbackSubmit\<close> leaves the form state exactly
  as it was when the submission call (\<^verbatim>\<open>onFeedback\<close>, that is \<^verbatim>\<open>handleFeedback\<close>)
  rejects, which it does exactly when the POST or the following GET fails; when the
  call resolves the only change is that \<^verbatim>\<open>showFeedback\<close> becomes false. The rating and
  the comments are unchanged either way.
\<close>

theorem feedback_form_kept_on_failure:
  assumes "truthy sol"
  shows "\<exists>sid. get_prop sol ''session_id'' = Inr sid
       \<and> (isl (fst (handleFeedback sid (JNum (rating d)) (JObj (comments d)) postRes getRes s))
            \<longleftrightarrow> isl postRes \<or> isl getRes)
       \<and> (isl (fst (handleFeedback sid (JNum (rating d)) (JObj (comments d)) postRes getRes s))
            \<longrightarrow> snd (fst (handleFeedbackSubmit sol postRes getRes (s, d))) = d)
       \<and> (\<not> isl (fst (handleFeedback sid (JNum (rating d)) (JObj (comments d)) postRes getRes s))
            \<longrightarrow> snd (fst (handleFeedbackSubmit sol postRes getRes (s, d)))
                  = d\<lparr>showFeedback := False\<rparr>)
       \<and> rating (snd (fst (handleFeedbackSubmit sol postRes getRes (s, d)))) = rating d
       \<and> comments (snd (fst (handleFeedbackSubmit sol postRes getRes (s, d)))) = comments d"
proof -
  from assms obtain sid where sid: "get_prop sol ''session_id'' = Inr sid"
    using truthy_get_prop by blast
  show ?thesis
    using sid handleFeedbackSubmit_form[OF sid, of postRes getRes s d]
      handleFeedback_resolves_iff[of sid "JNum (rating d)" "JObj (comments d)" postRes getRes s]
    by (intro exI[of _ sid]) simp
qed

theorem feedback_form_kept_on_failure_witness:
  "snd (fst (handleFeedbackSubmit (JObj [(''session_id'', JStr [0x61])])
       (Inl (RequestFailed JNull)) (Inr JNull)
       (app_init, sd_init\<lparr>showFeedback := True, rating := 2\<rparr>)))
     = sd_init\<lparr>showFeedback := True, rating := 2\<rparr>
   \<and> snd (fst (handleFeedbackSubmit (JObj [(''session_id'', JStr [0x61])])
       (Inr JNull) (Inr JNull)
       (app_init, sd_init\<lparr>showFeedback := True, rating := 2\<rparr>)))
     = sd_init\<lparr>showFeedback := False, rating := 2\<rparr>"
proof -
  let ?sol = "JObj [(''session_id'', JStr [0x61])]"
  let ?d = "sd_init\<lparr>showFeedback := True, rating := 2\<rparr>"
  have shown: "truthy ?sol"
    by simp
  from feedback_form_kept_on_failure[OF shown, of ?d "Inl (RequestFailed JNull)" "Inr JNull" app_init]
    feedback_form_kept_on_failure[OF shown, of ?d "Inr JNull" "Inr JNull" app_init]
  show ?thesis
    by (simp add: handleFeedback_def Let_def)
qed

section \<open>The feedback form over a session\<close>

lemma spread_set_keys:
  "k \<in> set (map fst kvs) \<Longrightarrow> map fst (spread_set kvs k v) = map fst kvs"
  by (induction kvs) force+

lemma spread_set_values:
  "list_all P (map snd kvs) \<Longrightarrow> P v \<Longrightarrow> list_all P (map snd (spread_set kvs k v))"
  by (induction kvs) auto

lemma sd_inv_init: "sd_inv sd_init"
  by (simp add: sd_inv_def sd_init_def comment_keys_def is_text_def)

lemma sd_inv_comments:
  assumes "sd_inv d" and "k \<in> set comment_keys"
  shows "sd_inv (d\<lparr>comments := spread_set (comments d) k (JStr v)\<rparr>)"
proof -
  from assms have "k \<in> set (map fst (comments d))"
    by (simp add: sd_inv_def)
  then have keys: "map fst (spread_set (comments d) k (JStr v)) = map fst (comments d)"
    by (rule spread_set_keys)
  from assms(1) have "list_all is_text (map snd (comments d))"
    by (simp add: sd_inv_def)
  then have "list_all is_text (map snd (spread_set (comments d) k (JStr v)))"
    by (rule spread_set_values) (simp add: is_text_def)
  with keys assms(1) show ?thesis
    by (simp add: sd_inv_def)
qed

lemma sd_inv_star:
  assumes "sd_inv d" and "i < length stars"
  shows "sd_inv (d\<lparr>rating := stars ! i\<rparr>)"
proof -
  from assms(2) have "stars ! i \<in> set stars"
    by (rule nth_mem)
  then have "stars ! i \<in> {1, 2, 3, 4, 5}"
    by (simp add: stars_def)
  with assms(1) show ?thesis
    by (simp add: sd_inv_def)
qed

lemma handleFeedbackSubmit_frame:
  "handleFeedbackSubmit sol postRes getRes (s, d) = ((s', d'), fx) \<Longrightarrow>
     rating d' = rating d \<and> comments d' = comments d"
  by (auto simp: handleFeedbackSubmit_def Let_def split: sum.splits prod.splits)

lemma handleFeedbackSubmit_posts:
  "handleFeedbackSubmit sol postRes getRes (s, d) = (st', fx) \<Longrightarrow> Post p b \<in> set fx \<Longrightarrow>
     \<exists>sid. get_prop sol ''session_id'' = Inr sid \<and> p = ''/feedback''
       \<and> b = feedback_body sid (JNum (rating d)) (JObj (comments d))"
  by (auto simp: handleFeedbackSubmit_def handleFeedback_def Let_def split: sum.splits prod.splits)

lemma sd_step_inv:
  assumes "sd_inv d" and "sd_step sol ev (s, d) = ((s', d'), fx)"
  shows "sd_inv d'"
proof (cases ev)
  case ToggleFeedback
  with assms show ?thesis by (auto simp: sd_inv_def)
next
  case (ClickStar i)
  with assms show ?thesis by (auto simp: sd_inv_star split: if_splits)
next
  case (ChangeClarity v)
  with assms show ?thesis by (auto simp: sd_inv_comments comment_keys_def split: if_splits)
next
  case (ChangeAccuracy v)
  with assms show ?thesis by (auto simp: sd_inv_comments comment_keys_def split: if_splits)
next
  case (ChangeCompleteness v)
  with assms show ?thesis by (auto simp: sd_inv_comments comment_keys_def split: if_splits)
next
  case (ClickSubmit postRes getRes)
  with assms(2) have "d' = d \<or> handleFeedbackSubmit sol postRes getRes (s, d) = ((s', d'), fx)"
    by (auto split: if_splits)
  then have "rating d' = rating d \<and> comments d' = comments d"
    using handleFeedbackSubmit_frame by blast
  with assms(1) show ?thesis by (simp add: sd_inv_def)
next
  case Remount
  with assms show ?thesis by (auto simp: sd_inv_init)
qed

lemma sd_step_posts:
  assumes "sd_step sol ev (s, d) = (st', fx)" and "Post p b \<in> set fx"
  shows "\<exists>sid. get_prop sol ''session_id'' = Inr sid \<and> p = ''/feedback''
           \<and> b = feedback_body sid (JNum (rating d)) (JObj (comments d))"
proof (cases ev)
  case (ClickSubmit postRes getRes)
  with assms have "handleFeedbackSubmit sol postRes getRes (s, d) = (st', fx)"
    by (auto split: if_splits)
  with assms(2) show ?thesis
    by (rule handleFeedbackSubmit_posts[rotated])
qed (use assms in \<open>auto split: if_splits\<close>)

text \<open>
  Over any sequence of events the form keeps its shape, and every POST it causes is a
  feedback request built from a state of that shape.
\<close>

lemma sd_run_inv:
  "sd_inv d \<Longrightarrow> sd_run sol evs (s, d) = ((s', d'), fx) \<Longrightarrow>
     sd_inv d' \<and>
     (\<forall>p b. Post p b \<in> set fx \<longrightarrow>
        (\<exists>sid r c. get_prop sol ''session_id'' = Inr sid \<and> p = ''/feedback''
           \<and> b = feedback_body sid (JNum r) (JObj c)
           \<and> r \<in> {1, 2, 3, 4, 5} \<and> map fst c = comment_keys \<and> list_all is_text (map snd c)))"
proof (induction evs arbitrary: s d fx)
  case Nil
  then show ?case by simp
next
  case (Cons ev evs)
  obtain s1 d1 fx1 where step: "sd_step sol ev (s, d) = ((s1, d1), fx1)"
    by (metis surj_pair)
  obtain st2 fx2 where rest: "sd_run sol evs (s1, d1) = (st2, fx2)"
    by (metis surj_pair)
  from Cons.prems(2) step rest have res: "st2 = (s', d')" "fx = fx1 @ fx2"
    by simp_all
  from Cons.prems(1) step have inv1: "sd_inv d1"
    by (rule sd_step_inv)
  from Cons.IH[OF inv1] rest res(1) have tail:
    "sd_inv d'"
    "\<forall>p b. Post p b \<in> set fx2 \<longrightarrow>
        (\<exists>sid r c. get_prop sol ''session_id'' = Inr sid \<and> p = ''/feedback''
           \<and> b = feedback_body sid (JNum r) (JObj c)
           \<and> r \<in> {1, 2, 3, 4, 5} \<and> map fst c = comment_keys \<and> list_all is_text (map snd c))"
    by simp_all
  have head:
    "\<forall>p b. Post p b \<in> set fx1 \<longrightarrow>
        (\<exists>sid r c. get_prop sol ''session_id'' = Inr sid \<and> p = ''/feedback''
           \<and> b = feedback_body sid (JNum r) (JObj c)
           \<and> r \<in> {1, 2, 3, 4, 5} \<and> map fst c = comment_keys \<and> list_all is_text (map snd c))"
  proof (intro allI impI)
    fix p b assume "Post p b \<in> set fx1"
    with step obtain sid where
      "get_prop sol ''session_id'' = Inr sid" "p = ''/feedback''"
      "b = feedback_body sid (JNum (rating d)) (JObj (comments d))"
      using sd_step_posts by blast
    with Cons.prems(1) show
      "\<exists>sid r c. get_prop sol ''session_id'' = Inr sid \<and> p = ''/feedback''
           \<and> b = feedback_body sid (JNum r) (JObj c)
           \<and> r \<in> {1, 2, 3, 4, 5} \<and> map fst c = comment_keys \<and> list_all is_text (map snd c)"
      unfolding sd_inv_def by blast
  qed
  from tail head res(2) show ?case
    by auto
qed

lemma click_star_rating:
  "rating (snd (fst (sd_step sol (ClickStar i) (s, d)))) = rating d
   \<or> rating (snd (fst (sd_step sol (ClickStar i) (s, d)))) \<in> {1, 2, 3, 4, 5}"
proof (cases "showFeedback d \<and> i < length stars")
  case True
  then have "stars ! i \<in> set stars"
    by simp
  with True show ?thesis
    by (simp add: stars_def)
next
  case False
  then show ?thesis
    by auto
qed

lemma handleFeedbackSubmit_first:
  "get_prop sol ''session_id'' = Inr sid \<Longrightarrow>
     hd (snd (handleFeedbackSubmit sol postRes getRes (s, d)))
       = Post ''/feedback'' (feedback_body sid (JNum (rating d)) (JObj (comments d)))"
  by (simp add: handleFeedbackSubmit_def handleFeedback_def Let_def split: sum.split)

text \<open>
  C3. The rating of a freshly mounted form is 5. Clicking a star either leaves the rating
  as it is (no such button is rendered) or sets it to one of 1, 2, 3, 4, 5. After any
  sequence of events on the form the rating is one of 1, 2, 3, 4, 5, and every request
  the form has posted carries such a number under \<^verbatim>\<open>rating\<close>.
\<close>

theorem rating_in_range:
  assumes "sd_run sol evs (s, sd_init) = ((s', d'), fx)"
  shows "rating sd_init = 5
       \<and> rating d' \<in> {1, 2, 3, 4, 5}
       \<and> (\<forall>i s1 d1.
            rating (snd (fst (sd_step sol (ClickStar i) (s1, d1)))) = rating d1
            \<or> rating (snd (fst (sd_step sol (ClickStar i) (s1, d1)))) \<in> {1, 2, 3, 4, 5})
       \<and> (\<forall>p b. Post p b \<in> set fx \<longrightarrow>
            (\<exists>r. r \<in> {1, 2, 3, 4, 5} \<and> get_prop b ''rating'' = Inr (JNum r)))"
proof -
  have start: "rating sd_init = 5"
    by (simp add: sd_init_def)
  from sd_run_inv[OF sd_inv_init assms] have inv: "sd_inv d'"
    and posts: "\<And>p b. Post p b \<in> set fx \<Longrightarrow>
        \<exists>sid r c. b = feedback_body sid (JNum r) (JObj c) \<and> r \<in> {1, 2, 3, 4, 5}"
    by blast+
  from inv have final: "rating d' \<in> {1, 2, 3, 4, 5}"
    by (simp add: sd_inv_def)
  have carried: "\<exists>r. r \<in> {1, 2, 3, 4, 5} \<and> get_prop b ''rating'' = Inr (JNum r)"
    if "Post p b \<in> set fx" for p b
  proof -
    from posts[OF that] obtain sid r c
      where "b = feedback_body sid (JNum r) (JObj c)" and "r \<in> {1, 2, 3, 4, 5}"
      by blast
    then show ?thesis
      by (auto simp: feedback_body_def)
  qed
  from start final click_star_rating carried show ?thesis
    by blast
qed

theorem rating_in_range_witness:
  "sd_run (JObj [(''session_id'', JStr [0x61])])
      [ToggleFeedback, ClickStar 2, ClickSubmit (Inr JNull) (Inr JNull)] (app_init, sd_init)
     = ((app_init, sd_init\<lparr>rating := 3\<rparr>),
        [Post ''/feedback''
           (JObj [(''session_id'', JStr [0x61]), (''rating'', JNum 3),
                  (''comments'', JObj [(''clarity'', JStr []), (''accuracy'', JStr []),
                                       (''completeness'', JStr [])])]),
         Get ''/feedback/analytics''])
   \<and> rating (sd_init\<lparr>rating := 3\<rparr>) \<in> {1, 2, 3, 4, 5}"
proof -
  have run: "sd_run (JObj [(''session_id'', JStr [0x61])])
      [ToggleFeedback, ClickStar 2, ClickSubmit (Inr JNull) (Inr JNull)] (app_init, sd_init)
     = ((app_init, sd_init\<lparr>rating := 3\<rparr>),
        [Post ''/feedback''
           (JObj [(''session_id'', JStr [0x61]), (''rating'', JNum 3),
                  (''comments'', JObj [(''clarity'', JStr []), (''accuracy'', JStr []),
                                       (''completeness'', JStr [])])]),
         Get ''/feedback/analytics''])"
    by (simp add: sd_init_def app_init_def stars_def handleFeedbackSubmit_def
        handleFeedback_def feedback_body_def Let_def)
  from rating_in_range[OF run] run show ?thesis
    by simp
qed

text \<open>
  C5. The comments of a freshly mounted form are three empty strings under
  \<^verbatim>\<open>clarity\<close>, \<^verbatim>\<open>accuracy\<close>, \<^verbatim>\<open>completeness\<close>. After any sequence of events on the
  form of a displayed solution, the comments object has exactly these three keys, each
  holding a string, and a submission at that moment posts to \<^verbatim>\<open>/feedback\<close> the object
  with \<^verbatim>\<open>session_id\<close> read from the solution, \<^verbatim>\<open>rating\<close> the current rating and
  \<^verbatim>\<open>comments\<close> that object; it posts nothing else. The same holds of every request
  posted during the sequence.
\<close>

theorem feedback_request_shape:
  assumes "sd_run sol evs (s0, sd_init) = ((s, d), fx0)" and "truthy sol"
  shows "comments sd_init
           = [(''clarity'', JStr []), (''accuracy'', JStr []), (''completeness'', JStr [])]
       \<and> map fst (comments d) = [''clarity'', ''accuracy'', ''completeness'']
       \<and> list_all is_text (map snd (comments d))
       \<and> (\<exists>sid. get_prop sol ''session_id'' = Inr sid
            \<and> hd (snd (handleFeedbackSubmit sol postRes getRes (s, d)))
                = Post ''/feedback''
                    (JObj [(''session_id'', sid), (''rating'', JNum (rating d)),
                           (''comments'', JObj (comments d))])
            \<and> (\<forall>p b. Post p b \<in> set (snd (handleFeedbackSubmit sol postRes getRes (s, d))) \<longrightarrow>
                  p = ''/feedback''
                  \<and> b = JObj [(''session_id'', sid), (''rating'', JNum (rating d)),
                              (''comments'', JObj (comments d))]))
       \<and> (\<forall>p b. Post p b \<in> set fx0 \<longrightarrow>
            (\<exists>sid r c. get_prop sol ''session_id'' = Inr sid \<and> p = ''/feedback''
               \<and> b = JObj [(''session_id'', sid), (''rating'', JNum r), (''comments'', JObj c)]
               \<and> map fst c = [''clarity'', ''accuracy'', ''completeness'']
               \<and> list_all is_text (map snd c)))"
proof -
  have start: "comments sd_init
      = [(''clarity'', JStr []), (''accuracy'', JStr []), (''completeness'', JStr [])]"
    by (simp add: sd_init_def)
  from sd_run_inv[OF sd_inv_init assms(1)] have inv: "sd_inv d"
    and posts: "\<And>p b. Post p b \<in> set fx0 \<Longrightarrow>
        \<exists>sid r c. get_prop sol ''session_id'' = Inr sid \<and> p = ''/feedback''
           \<and> b = feedback_body sid (JNum r) (JObj c)
           \<and> map fst c = comment_keys \<and> list_all is_text (map snd c)"
    by blast+
  from inv have keys: "map fst (comments d) = [''clarity'', ''accuracy'', ''completeness'']"
    and texts: "list_all is_text (map snd (comments d))"
    by (simp_all add: sd_inv_def comment_keys_def)
  from assms(2) obtain sid where sid: "get_prop sol ''session_id'' = Inr sid"
    using truthy_get_prop by blast
  let ?body = "JObj [(''session_id'', sid), (''rating'', JNum (rating d)),
                     (''comments'', JObj (comments d))]"
  have first: "hd (snd (handleFeedbackSubmit sol postRes getRes (s, d))) = Post ''/feedback'' ?body"
    using handleFeedbackSubmit_first[OF sid] by (simp add: feedback_body_def)
  have only: "p = ''/feedback'' \<and> b = ?body"
    if "Post p b \<in> set (snd (handleFeedbackSubmit sol postRes getRes (s, d)))" for p b
    using handleFeedbackSubmit_posts[OF surjective_pairing that] sid
    by (auto simp: feedback_body_def)
  have now: "\<exists>sid. get_prop sol ''session_id'' = Inr sid
      \<and> hd (snd (handleFeedbackSubmit sol postRes getRes (s, d)))
          = Post ''/feedback''
              (JObj [(''session_id'', sid), (''rating'', JNum (rating d)),
                     (''comments'', JObj (comments d))])
      \<and> (\<forall>p b. Post p b \<in> set (snd (handleFeedbackSubmit sol postRes getRes (s, d))) \<longrightarrow>
            p = ''/feedback''
            \<and> b = JObj [(''session_id'', sid), (''rating'', JNum (rating d)),
                        (''comments'', JObj (comments d))])"
    using sid first only by blast
  have before: "\<exists>sid r c. get_prop sol ''session_id'' = Inr sid \<and> p = ''/feedback''
       \<and> b = JObj [(''session_id'', sid), (''rating'', JNum r), (''comments'', JObj c)]
       \<and> map fst c = [''clarity'', ''accuracy'', ''completeness'']
       \<and> list_all is_text (map snd c)"
    if "Post p b \<in> set fx0" for p b
    using posts[OF that] by (simp add: feedback_body_def comment_keys_def)
  from start keys texts now before show ?thesis
    by blast
qed

theorem feedback_request_shape_witness:
  "sd_run (JObj [(''session_id'', JStr [0x61])])
      [ToggleFeedback, ChangeAccuracy [0x6F, 0x6B], ClickStar 3] (app_init, sd_init)
     = ((app_init,
         \<lparr>showFeedback = True, rating = 4,
          comments = [(''clarity'', JStr []), (''accuracy'', JStr [0x6F, 0x6B]),
                      (''completeness'', JStr [])]\<rparr>), [])
   \<and> hd (snd (handleFeedbackSubmit (JObj [(''session_id'', JStr [0x61])])
         (Inl (RequestFailed JNull)) (Inr JNull)
         (app_init,
          \<lparr>showFeedback = True, rating = 4,
           comments = [(''clarity'', JStr []), (''accuracy'', JStr [0x6F, 0x6B]),
                       (''completeness'', JStr [])]\<rparr>)))
     = Post ''/feedback''
         (JObj [(''session_id'', JStr [0x61]), (''rating'', JNum 4),
                (''comments'', JObj [(''clarity'', JStr []), (''accuracy'', JStr [0x6F, 0x6B]),
                                     (''completeness'', JStr [])])])"
proof -
  let ?sol = "JObj [(''session_id'', JStr [0x61])]"
  have run: "sd_run ?sol [ToggleFeedback, ChangeAccuracy [0x6F, 0x6B], ClickStar 3]
      (app_init, sd_init)
     = ((app_init,
         \<lparr>showFeedback = True, rating = 4,
          comments = [(''clarity'', JStr []), (''accuracy'', JStr [0x6F, 0x6B]),
                      (''completeness'', JStr [])]\<rparr>), [])"
    by (simp add: sd_init_def stars_def)
  have shown: "truthy ?sol"
    by simp
  from feedback_request_shape[OF run shown, of "Inl (RequestFailed JNull)" "Inr JNull"] run
  show ?thesis
    by simp
qed

section \<open>The guardrail badges\<close>

lemma map_of_spread_set:
  "map_of (spread_set kvs k v) k' = (if k' = k then Some v else map_of kvs k')"
  by (induction kvs) auto

lemma get_prop_spread_set:
  "k' \<noteq> k \<Longrightarrow> get_prop (JObj (spread_set kvs k v)) k' = get_prop (JObj kvs) k'"
  by (simp add: map_of_spread_set)

text \<open>
  C4 as stated fails, on solutions complete in every field the render reads (question
  \<^verbatim>\<open>"x"\<close>, solution \<^verbatim>\<open>"4"\<close>, confidence 0.9, processing time 1.5 s, sources
  \<^verbatim>\<open>["KB"]\<close>). With its verdict under \<^verbatim>\<open>guardrails\<close> the solution cannot be displayed:
  the render throws a TypeError, while the same solution with the field named
  \<^verbatim>\<open>guardrails_passed\<close> is displayed. And with both fields present the badges follow
  \<^verbatim>\<open>guardrails_passed\<close>: both show passed although \<^verbatim>\<open>guardrails\<close> says false twice.
\<close>

theorem guardrails_field_counterexample:
  "SolutionDisplay_render
     (JObj [(''session_id'', JStr [0x61]), (''question'', JStr [0x78]),
            (''solution'', JStr [0x34]), (''confidence'', JNum (9 / 10)),
            (''processing_time'', JNum (3 / 2)), (''sources'', JArr [JStr [0x4B, 0x42]]),
            (''guardrails'', JObj [(''input'', JBool True), (''output'', JBool True)])])
     = Inl TypeError
   \<and> SolutionDisplay_render
     (JObj [(''session_id'', JStr [0x61]), (''question'', JStr [0x78]),
            (''solution'', JStr [0x34]), (''confidence'', JNum (9 / 10)),
            (''processing_time'', JNum (3 / 2)), (''sources'', JArr [JStr [0x4B, 0x42]]),
            (''guardrails_passed'', JObj [(''input'', JBool True), (''output'', JBool True)])])
     = Inr (Passed, Passed)
   \<and> SolutionDisplay_render
     (JObj [(''session_id'', JStr [0x61]), (''question'', JStr [0x78]),
            (''solution'', JStr [0x34]), (''confidence'', JNum (9 / 10)),
            (''processing_time'', JNum (3 / 2)), (''sources'', JArr [JStr [0x4B, 0x42]]),
            (''guardrails'', JObj [(''input'', JBool False), (''output'', JBool False)]),
            (''guardrails_passed'', JObj [(''input'', JBool True), (''output'', JBool True)])])
     = Inr (Passed, Passed)"
  by (simp add: SolutionDisplay_render_def guardrails_panel_def badge_of_def is_number_def
      is_string_array_def is_text_def)

text \<open>
  C4, amended. For every displayed Solution, that is whenever the render goes through,
  the two badges are read from the solution's field \<^verbatim>\<open>guardrails_passed\<close>: the input
  badge shows passed exactly when \<^verbatim>\<open>solution.guardrails_passed.input\<close> is truthy, the
  output badge exactly when \<^verbatim>\<open>solution.guardrails_passed.output\<close> is. The panel gives
  these badges whenever the two properties can be read. A field named \<^verbatim>\<open>guardrails\<close>
  has no influence on the render, neither on whether it goes through nor on a badge.
\<close>

theorem guardrail_badges_source:
  "(SolutionDisplay_render sol = Inr (bi, bo) \<longrightarrow>
      (\<exists>g i out. get_prop sol ''guardrails_passed'' = Inr g
         \<and> get_prop g ''input'' = Inr i \<and> get_prop g ''output'' = Inr out
         \<and> bi = (if truthy i then Passed else Failed)
         \<and> bo = (if truthy out then Passed else Failed)))
   \<and> (get_prop sol ''guardrails_passed'' = Inr g \<and> get_prop g ''input'' = Inr i
        \<and> get_prop g ''output'' = Inr out \<longrightarrow>
        guardrails_panel sol
          = Inr (if truthy i then Passed else Failed, if truthy out then Passed else Failed))
   \<and> SolutionDisplay_render (JObj (spread_set kvs ''guardrails'' v))
       = SolutionDisplay_render (JObj kvs)"
proof -
  have shown: "\<exists>g i out. get_prop sol ''guardrails_passed'' = Inr g
         \<and> get_prop g ''input'' = Inr i \<and> get_prop g ''output'' = Inr out
         \<and> bi = (if truthy i then Passed else Failed)
         \<and> bo = (if truthy out then Passed else Failed)"
    if "SolutionDisplay_render sol = Inr (bi, bo)"
  proof -
    from that have "guardrails_panel sol = Inr (bi, bo)"
      by (auto simp: SolutionDisplay_render_def split: sum.splits if_splits)
    then obtain g i out where "get_prop sol ''guardrails_passed'' = Inr g"
      and "get_prop g ''input'' = Inr i" and "get_prop g ''output'' = Inr out"
      and "bi = badge_of i" and "bo = badge_of out"
      by (auto simp: guardrails_panel_def split: sum.splits)
    then show ?thesis
      unfolding badge_of_def by blast
  qed
  have panel: "get_prop sol ''guardrails_passed'' = Inr g \<and> get_prop g ''input'' = Inr i
        \<and> get_prop g ''output'' = Inr out \<longrightarrow>
        guardrails_panel sol
          = Inr (if truthy i then Passed else Failed, if truthy out then Passed else Failed)"
    by (simp add: guardrails_panel_def badge_of_def)
  have unread: "SolutionDisplay_render (JObj (spread_set kvs ''guardrails'' v))
       = SolutionDisplay_render (JObj kvs)"
  proof -
    let ?sol' = "JObj (spread_set kvs ''guardrails'' v)"
    have time: "get_prop ?sol' ''processing_time'' = get_prop (JObj kvs) ''processing_time''"
      by (rule get_prop_spread_set) simp
    have srcs: "get_prop ?sol' ''sources'' = get_prop (JObj kvs) ''sources''"
      by (rule get_prop_spread_set) simp
    have verdict: "get_prop ?sol' ''guardrails_passed'' = get_prop (JObj kvs) ''guardrails_passed''"
      by (rule get_prop_spread_set) simp
    have answer: "get_prop ?sol' ''solution'' = get_prop (JObj kvs) ''solution''"
      by (rule get_prop_spread_set) simp
    have quest: "get_prop ?sol' ''question'' = get_prop (JObj kvs) ''question''"
      by (rule get_prop_spread_set) simp
    show ?thesis
      unfolding SolutionDisplay_render_def guardrails_panel_def time srcs verdict answer quest
      by (rule refl)
  qed
  from shown panel unread show ?thesis
    by blast
qed

theorem guardrail_badges_source_witness:
  "SolutionDisplay_render
     (JObj [(''session_id'', JStr [0x61]), (''question'', JStr [0x78]),
            (''solution'', JStr [0x34]), (''confidence'', JNum (9 / 10)),
            (''processing_time'', JNum (3 / 2)), (''sources'', JArr [JStr [0x4B, 0x42]]),
            (''guardrails_passed'', JObj [(''input'', JBool True), (''output'', JBool False)])])
     = Inr (Passed, Failed)
   \<and> get_prop (JObj [(''input'', JBool True), (''output'', JBool False)]) ''input''
       = Inr (JBool True)
   \<and> get_prop (JObj [(''input'', JBool True), (''output'', JBool False)]) ''output''
       = Inr (JBool False)"
proof -
  let ?sol = "JObj [(''session_id'', JStr [0x61]), (''question'', JStr [0x78]),
            (''solution'', JStr [0x34]), (''confidence'', JNum (9 / 10)),
            (''processing_time'', JNum (3 / 2)), (''sources'', JArr [JStr [0x4B, 0x42]]),
            (''guardrails_passed'', JObj [(''input'', JBool True), (''output'', JBool False)])]"
  have run: "SolutionDisplay_render ?sol = Inr (Passed, Failed)"
    by (simp add: SolutionDisplay_render_def guardrails_panel_def badge_of_def is_number_def
        is_string_array_def is_text_def)
  from guardrail_badges_source[of ?sol Passed Failed] run show ?thesis
    by simp
qed

section \<open>Polling\<close>

lemma loadSystemData_requests: "requests (snd (loadSystemData rs s)) = sys_requests"
proof -
  obtain r1 r2 r3 r4 where "rs = (r1, r2, r3, r4)"
    by (metis surj_pair)
  then show ?thesis
    by (cases r1; cases r2; cases r3; cases r4) (simp_all add: requests_def sys_requests_def)
qed

lemma call_loadSystemData_frame:
  "timers (call_loadSystemData srv p) = timers p"
  "cleanup (call_loadSystemData srv p) = cleanup p"
  "next_timer_id (call_loadSystemData srv p) = next_timer_id p"
  "clock (call_loadSystemData srv p) = clock p"
  by (simp_all add: call_loadSystemData_def split: prod.split)

lemma call_loadSystemData_requests:
  "requests (log (call_loadSystemData srv p)) = requests (log p) @ sys_requests"
proof -
  have "requests (log (call_loadSystemData srv p))
      = requests (log p) @ requests (snd (loadSystemData (srv (clock p)) (app p)))"
    by (simp add: call_loadSystemData_def requests_def split: prod.split)
  then show ?thesis
    by (simp add: loadSystemData_requests)
qed

lemma tick_single:
  assumes "timers p = [t]"
  shows "timers (tick srv p) = [rearm t]"
    and "cleanup (tick srv p) = cleanup p"
    and "requests (log (tick srv p)) = requests (log p) @ (if due_now t then sys_requests else [])"
  using assms
  by (simp_all add: tick_def call_loadSystemData_frame call_loadSystemData_requests)

lemma tick_idle:
  assumes "timers p = []"
  shows "timers (tick srv p) = []" and "log (tick srv p) = log p" and "app (tick srv p) = app p"
  using assms by (simp_all add: tick_def)

lemma elapse_idle:
  "timers p = [] \<Longrightarrow>
     timers (elapse srv m p) = [] \<and> log (elapse srv m p) = log p \<and> app (elapse srv m p) = app p"
  by (induction m) (simp_all add: tick_idle)

lemma due_step:
  assumes "1 < D"
  shows "(D - n mod D \<le> 1) = (Suc n mod D = 0)"
    and "Suc n mod D \<noteq> 0 \<Longrightarrow> D - n mod D - 1 = D - Suc n mod D"
proof -
  define m where "m = n mod D"
  from assms have less: "m < D"
    by (simp add: m_def)
  have next_mod: "Suc n mod D = (if Suc m = D then 0 else Suc m)"
    by (simp add: m_def mod_Suc)
  from less assms show "(D - n mod D \<le> 1) = (Suc n mod D = 0)"
    unfolding next_mod m_def[symmetric] by auto
  show "Suc n mod D \<noteq> 0 \<Longrightarrow> D - n mod D - 1 = D - Suc n mod D"
    unfolding next_mod m_def[symmetric] by (auto split: if_splits)
qed

lemma concat_replicate_snoc:
  "concat (replicate k xs) @ xs = xs @ concat (replicate k xs)"
  by (induction k) simp_all

lemma mount_page:
  "timers (mount srv page_init) = [\<lparr>timer_id = 0, timer_delay = poll_ms, timer_due = poll_ms\<rparr>]"
  "cleanup (mount srv page_init) = Some 0"
  "requests (log (mount srv page_init)) = sys_requests"
proof -
  show "timers (mount srv page_init) = [\<lparr>timer_id = 0, timer_delay = poll_ms, timer_due = poll_ms\<rparr>]"
    by (simp add: mount_def setInterval_def Let_def call_loadSystemData_frame page_init_def)
  show "cleanup (mount srv page_init) = Some 0"
    by (simp add: mount_def setInterval_def Let_def call_loadSystemData_frame page_init_def)
  have "requests (log (mount srv page_init)) = requests (log (call_loadSystemData srv page_init))"
    by (simp add: mount_def setInterval_def Let_def)
  moreover have "requests (log page_init) = []"
    by (simp add: page_init_def requests_def)
  ultimately show "requests (log (mount srv page_init)) = sys_requests"
    by (simp add: call_loadSystemData_requests)
qed

text \<open>
  While mounted, \<open>n\<close> milliseconds after the mount: the one interval is still armed, it
  fires next at the coming multiple of the period, and the page has made one refresh at
  the mount and one more for each full period elapsed.
\<close>

lemma polling_inv:
  "timers (elapse srv n (mount srv page_init))
     = [\<lparr>timer_id = 0, timer_delay = poll_ms, timer_due = poll_ms - n mod poll_ms\<rparr>]
   \<and> cleanup (elapse srv n (mount srv page_init)) = Some 0
   \<and> requests (log (elapse srv n (mount srv page_init)))
       = concat (replicate (Suc (n div poll_ms)) sys_requests)"
proof (induction n)
  case 0
  show ?case
    by (simp add: mount_page)
next
  case (Suc n)
  let ?p = "elapse srv n (mount srv page_init)"
  let ?t = "\<lparr>timer_id = 0, timer_delay = poll_ms, timer_due = poll_ms - n mod poll_ms\<rparr>"
  have period: "1 < poll_ms"
    by (simp add: poll_ms_def)
  from Suc.IH have one: "timers ?p = [?t]"
    by simp
  have due: "due_now ?t \<longleftrightarrow> Suc n mod poll_ms = 0"
    using due_step(1)[OF period] by (simp add: due_now_def)
  have armed: "rearm ?t
      = \<lparr>timer_id = 0, timer_delay = poll_ms, timer_due = poll_ms - Suc n mod poll_ms\<rparr>"
  proof (cases "Suc n mod poll_ms = 0")
    case True
    with due show ?thesis
      by (simp add: rearm_def)
  next
    case False
    with due due_step(2)[OF period False] show ?thesis
      by (simp add: rearm_def)
  qed
  have count: "requests (log (tick srv ?p))
      = concat (replicate (Suc (Suc n div poll_ms)) sys_requests)"
  proof (cases "Suc n mod poll_ms = 0")
    case True
    then have "Suc n div poll_ms = Suc (n div poll_ms)"
      by (simp add: div_Suc)
    with True due Suc.IH tick_single(3)[OF one, of srv] show ?thesis
      by (simp add: concat_replicate_snoc)
  next
    case False
    then have "Suc n div poll_ms = n div poll_ms"
      by (simp add: div_Suc)
    with False due Suc.IH tick_single(3)[OF one, of srv] show ?thesis
      by simp
  qed
  from tick_single(1)[OF one, of srv] tick_single(2)[OF one, of srv] armed count Suc.IH
  show ?case
    by simp
qed

lemma unmount_clears:
  "timers (unmount (elapse srv n (mount srv page_init))) = []
   \<and> log (unmount (elapse srv n (mount srv page_init))) = log (elapse srv n (mount srv page_init))"
  using polling_inv[of srv n]
  by (simp add: unmount_def clearInterval_def)

text \<open>
  C6. Every run of \<^verbatim>\<open>loadSystemData\<close> issues exactly the four GET requests for health,
  feedback analytics, knowledge-base statistics and MCP tools, whatever their outcomes.
  Mounting \<^verbatim>\<open>App\<close> runs it once and arms one interval of 30000 ms; \<open>n\<close> milliseconds
  after the mount the page has issued one such group of four at the mount and one for
  every full 30000 ms elapsed, and nothing else. Unmounting clears the interval: no
  timer is left, and however long the page lives on, its log does not grow.
\<close>

theorem dashboard_polling:
  "requests (snd (loadSystemData rs s))
     = [Get ''/health'', Get ''/feedback/analytics'', Get ''/knowledge-base/stats'',
        Get ''/mcp/tools'']
   \<and> timers (mount srv page_init)
       = [\<lparr>timer_id = 0, timer_delay = 30000, timer_due = 30000\<rparr>]
   \<and> requests (log (elapse srv n (mount srv page_init)))
       = concat (replicate (Suc (n div 30000))
           [Get ''/health'', Get ''/feedback/analytics'', Get ''/knowledge-base/stats'',
            Get ''/mcp/tools''])
   \<and> timers (unmount (elapse srv n (mount srv page_init))) = []
   \<and> log (elapse srv m (unmount (elapse srv n (mount srv page_init))))
       = log (elapse srv n (mount srv page_init))"
proof -
  have four: "requests (snd (loadSystemData rs s))
      = [Get ''/health'', Get ''/feedback/analytics'', Get ''/knowledge-base/stats'',
         Get ''/mcp/tools'']"
    using loadSystemData_requests[of rs s] by (simp add: sys_requests_def)
  have armed: "timers (mount srv page_init)
      = [\<lparr>timer_id = 0, timer_delay = 30000, timer_due = 30000\<rparr>]"
    using mount_page(1)[of srv] by (simp add: poll_ms_def)
  have polled: "requests (log (elapse srv n (mount srv page_init)))
      = concat (replicate (Suc (n div 30000))
          [Get ''/health'', Get ''/feedback/analytics'', Get ''/knowledge-base/stats'',
           Get ''/mcp/tools''])"
    using polling_inv[of srv n] by (simp add: poll_ms_def sys_requests_def)
  have cleared: "timers (unmount (elapse srv n (mount srv page_init))) = []"
    using unmount_clears[of srv n] by simp
  from elapse_idle[OF cleared, of srv m] unmount_clears[of srv n]
  have silent: "log (elapse srv m (unmount (elapse srv n (mount srv page_init))))
      = log (elapse srv n (mount srv page_init))"
    by simp
  from four armed polled cleared silent show ?thesis
    by blast
qed

end
